theory Spec2Isabelle
  imports Main "HOL-Library.AList" "HOL-Library.Extended_Nat"
begin

section \<open>Pose limits: interval constraints on a flattened pose\<close>

text \<open>
  The constraint tree of \<^verbatim>\<open>appearanceLimit.ts\<close> works on string-keyed maps: a pose is
  flattened by \<^verbatim>\<open>FromPose\<close> to a \<^verbatim>\<open>Map<string, number>\<close> and a pose-limit definition by
  \<^verbatim>\<open>FromLimit\<close> to a \<^verbatim>\<open>Map<string, [number, number][]>\<close>.  A JavaScript \<^verbatim>\<open>Map\<close> is
  modelled as an association list in insertion order: \<^verbatim>\<open>get\<close> is \<^const>\<open>map_of\<close>,
  \<^verbatim>\<open>set\<close> is \<^const>\<open>AList.update\<close> (in place for a present key, appended otherwise) and
  \<^verbatim>\<open>delete\<close> is \<^const>\<open>AList.delete\<close>.  Numbers are integers (bone rotations and the
  indices of the arm and view enumerations); \<^verbatim>\<open>Infinity\<close>, the start value of the
  distance minimisation, is the top element of \<^typ>\<open>enat\<close>.
\<close>

type_synonym interval = "int \<times> int"
type_synonym limit_map = "(string \<times> interval list) list"
type_synonym pose_data = "(string \<times> int) list"

text \<open>
  Modelled from the spec: \<^verbatim>\<open>IntervalSetIntersection\<close> is imported from \<^verbatim>\<open>../utility\<close>,
  which is not among the sources.  The specification describes it as the union of the
  pairwise overlaps of two interval lists.
\<close>

definition overlap :: "interval \<Rightarrow> interval \<Rightarrow> interval list" where
  "overlap a b =
     (let lo = max (fst a) (fst b); hi = min (snd a) (snd b)
      in if lo \<le> hi then [(lo, hi)] else [])"

definition IntervalSetIntersection :: "interval list \<Rightarrow> interval list \<Rightarrow> interval list" where
  "IntervalSetIntersection a b = concat (map (\<lambda>x. concat (map (overlap x) b)) a)"

subsection \<open>TreeLimit\<close>

definition in_interval :: "int \<Rightarrow> interval \<Rightarrow> bool" where
  "in_interval v iv = (fst iv \<le> v \<and> v \<le> snd iv)"

text \<open>\<^verbatim>\<open>TreeLimit.validate\<close>: every entry of the data that has a limit lies in one of its intervals.\<close>

fun TreeLimit_validate :: "limit_map \<Rightarrow> pose_data \<Rightarrow> bool" where
  "TreeLimit_validate lmt [] = True"
| "TreeLimit_validate lmt ((key, v) # rest) =
     (case map_of lmt key of
        None \<Rightarrow> TreeLimit_validate lmt rest
      | Some l \<Rightarrow> if \<not> list_ex (in_interval v) l then False else TreeLimit_validate lmt rest)"





definition TreeLimit_hasNoLimits :: "limit_map \<Rightarrow> bool" where
  "TreeLimit_hasNoLimits lmt = (lmt = [])"

text \<open>\<^verbatim>\<open>TreeLimit.intersection\<close>: \<^verbatim>\<open>null\<close> (here \<^const>\<open>None\<close>) as soon as a shared key has an empty intersection.\<close>

fun intersection_loop :: "limit_map \<Rightarrow> limit_map \<Rightarrow> limit_map \<Rightarrow> limit_map option" where
  "intersection_loop [] other newLimit = Some newLimit"
| "intersection_loop ((key, v) # rest) other newLimit =
     (case map_of other key of
        None \<Rightarrow> intersection_loop rest other newLimit
      | Some otherValue \<Rightarrow>
          (let newValue = IntervalSetIntersection v otherValue
           in if newValue = [] then None
              else intersection_loop rest other (AList.update key newValue newLimit)))"

definition TreeLimit_intersection :: "limit_map \<Rightarrow> limit_map \<Rightarrow> limit_map option" where
  "TreeLimit_intersection this other = intersection_loop this other []"

text \<open>\<^verbatim>\<open>TreeLimit.extend\<close>: adds the keys of \<open>other\<close> that the limit does not have yet.\<close>

fun TreeLimit_extend :: "limit_map \<Rightarrow> limit_map \<Rightarrow> limit_map" where
  "TreeLimit_extend newLimit [] = newLimit"
| "TreeLimit_extend newLimit ((key, v) # rest) =
     (if map_of newLimit key \<noteq> None then TreeLimit_extend newLimit rest
      else TreeLimit_extend (AList.update key v newLimit) rest)"

text \<open>\<^verbatim>\<open>TreeLimit.prune\<close>: removes the keys that store the same value as in \<open>other\<close>.\<close>

fun TreeLimit_prune :: "limit_map \<Rightarrow> limit_map \<Rightarrow> limit_map" where
  "TreeLimit_prune newLimit [] = newLimit"
| "TreeLimit_prune newLimit ((key, v) # rest) =
     (case map_of newLimit key of
        None \<Rightarrow> TreeLimit_prune newLimit rest
      | Some newValue \<Rightarrow>
          if newValue = v then TreeLimit_prune (AList.delete key newLimit) rest
          else TreeLimit_prune newLimit rest)"

subsection \<open>TreeNode\<close>

datatype TreeNode = TreeNode (limit: limit_map) (children: "TreeNode list option")

fun TreeNode_validate :: "TreeNode \<Rightarrow> pose_data \<Rightarrow> bool" where
  "TreeNode_validate (TreeNode lmt chs) data =
     (if \<not> TreeLimit_validate lmt data then False
      else case chs of
             None \<Rightarrow> True
           | Some cs \<Rightarrow> list_ex (\<lambda>child. TreeNode_validate child data) cs)"


definition TreeNode_hasNoLimits :: "TreeNode \<Rightarrow> bool" where
  "TreeNode_hasNoLimits n = (TreeLimit_hasNoLimits (limit n) \<and> children n = None)"

text \<open>
  \<^verbatim>\<open>TreeNode.fromResult\<close>: no child left is \<^verbatim>\<open>null\<close>, a single child is merged
  into its parent (the child's keys win), otherwise a node with the children.
\<close>

definition fromResult :: "limit_map \<Rightarrow> TreeNode list \<Rightarrow> TreeNode option" where
  "fromResult lmt chs =
     (if length chs = 0 then None
      else if length chs = 1
        then Some (TreeNode (TreeLimit_extend (limit (hd chs)) lmt) (children (hd chs)))
      else Some (TreeNode lmt (Some chs)))"

text \<open>\<^verbatim>\<open>TreeNode.intersectionWithLimit\<close>; the \<^verbatim>\<open>map\<close> and \<^verbatim>\<open>filter\<close> over the children are \<^const>\<open>List.map_filter\<close>.\<close>

fun intersectionWithLimit :: "TreeNode \<Rightarrow> limit_map \<Rightarrow> bool \<Rightarrow> TreeNode option"
  and intersectChildrenWithLimit :: "TreeNode list \<Rightarrow> limit_map \<Rightarrow> TreeNode list"
where
  "intersectionWithLimit (TreeNode thisLimit chs) lmt prune =
     (case TreeLimit_intersection thisLimit lmt of
        None \<Rightarrow> None
      | Some intersection \<Rightarrow>
          (let newLimit =
                 (if prune then TreeLimit_prune (TreeLimit_extend intersection thisLimit) lmt
                  else TreeLimit_extend (TreeLimit_extend intersection thisLimit) lmt)
           in case chs of
                None \<Rightarrow> Some (TreeNode newLimit None)
              | Some cs \<Rightarrow>
                  (let childLimiter = TreeLimit_prune newLimit thisLimit;
                       newChildren = intersectChildrenWithLimit cs childLimiter
                   in fromResult newLimit newChildren)))"
| "intersectChildrenWithLimit [] lmt = []"
| "intersectChildrenWithLimit (child # rest) lmt =
     (case intersectionWithLimit child lmt True of
        None \<Rightarrow> intersectChildrenWithLimit rest lmt
      | Some c \<Rightarrow> c # intersectChildrenWithLimit rest lmt)"

text \<open>
  \<^verbatim>\<open>TreeNode.intersection\<close>.  When the node has no children, the children of \<open>other\<close>
  are intersected with the node's limit; otherwise every child of the node is
  intersected with every child of \<open>other\<close>, grouped by the child of \<open>other\<close>.
\<close>

fun TreeNode_intersection :: "TreeNode \<Rightarrow> TreeNode \<Rightarrow> TreeNode option" where
  "TreeNode_intersection this (TreeNode otherLimit otherChildren) =
     (case intersectionWithLimit this otherLimit False of
        None \<Rightarrow> None
      | Some next \<Rightarrow>
          (case otherChildren of
             None \<Rightarrow> Some next
           | Some ocs \<Rightarrow>
               (let nodes =
                      (case children next of
                         None \<Rightarrow> intersectChildrenWithLimit ocs (limit next)
                       | Some cs \<Rightarrow>
                           concat (map (\<lambda>otherChild.
                             List.map_filter (\<lambda>child. TreeNode_intersection child otherChild) cs) ocs))
                in fromResult (limit next) nodes)))"

subsection \<open>AppearanceLimitTree\<close>

text \<open>
  A pose-limit definition, with its own limit already flattened by \<^verbatim>\<open>FromLimit\<close>, and
  its options.  \<^verbatim>\<open>FromPose\<close>, \<^verbatim>\<open>FromLimit\<close> and \<^verbatim>\<open>ToPose\<close> only convert between the
  structured pose and the string-keyed map, through enumeration schemas that are not
  among the sources: the tree is modelled on the flattened data.
\<close>

datatype PoseLimits = PoseLimits (fromLimit: limit_map) (options: "PoseLimits list option")

fun CreateTreeNode :: "PoseLimits \<Rightarrow> TreeNode" where
  "CreateTreeNode (PoseLimits l opts) =
     TreeNode l (case opts of None \<Rightarrow> None | Some os \<Rightarrow> Some (map CreateTreeNode os))"

record AppearanceLimitTree =
  root :: "TreeNode option"

definition new_AppearanceLimitTree :: AppearanceLimitTree where
  "new_AppearanceLimitTree = \<lparr>root = Some (TreeNode [] None)\<rparr>"

definition valid :: "AppearanceLimitTree \<Rightarrow> bool" where
  "valid t = (root t \<noteq> None)"

definition AppearanceLimitTree_validate :: "AppearanceLimitTree \<Rightarrow> pose_data \<Rightarrow> bool" where
  "AppearanceLimitTree_validate t pose =
     (case root t of None \<Rightarrow> False | Some r \<Rightarrow> TreeNode_validate r pose)"


text \<open>\<^verbatim>\<open>AppearanceLimitTree.merge\<close> assigns the root; it returns its result and the tree after the call.\<close>

definition merge :: "AppearanceLimitTree \<Rightarrow> PoseLimits option \<Rightarrow> bool \<times> AppearanceLimitTree" where
  "merge t limits =
     (case root t of
        None \<Rightarrow> (False, t)
      | Some r \<Rightarrow>
          (case limits of
             None \<Rightarrow> (True, t)
           | Some l \<Rightarrow>
               (let t' = t\<lparr>root := TreeNode_intersection r (CreateTreeNode l)\<rparr>
                in (root t' \<noteq> None, t'))))"

text \<open>The merges of a sequence of definitions, one call after the other on the same tree.\<close>

fun merge_all :: "AppearanceLimitTree \<Rightarrow> PoseLimits option list \<Rightarrow> AppearanceLimitTree" where
  "merge_all t [] = t"
| "merge_all t (limits # rest) = merge_all (snd (merge t limits)) rest"

subsection \<open>Well-formed limits\<close>





section \<open>The appearance action engine\<close>

text \<open>
  \<^verbatim>\<open>DoAppearanceAction\<close> returns a boolean and changes the target's \<^verbatim>\<open>Appearance\<close> object
  in place.  The class \<^verbatim>\<open>Appearance\<close> and the asset manager are not among the sources, so
  the methods called on them are parameters: the queries \<^verbatim>\<open>allowCreateItem\<close> and
  \<^verbatim>\<open>allowRemoveItem\<close> return a boolean, the commands \<^verbatim>\<open>createItem\<close>, \<^verbatim>\<open>removeItem\<close> and
  \<^verbatim>\<open>importPose\<close> return the appearance after the call, and \<^verbatim>\<open>getAssetById\<close> is a partial
  map.  The state is the context's map from character ids to appearances; the model
  returns the result together with the context after the call.
\<close>

type_synonym CharacterId = string
type_synonym ItemId = string
type_synonym AssetId = string

datatype AppearanceAction =
    Create (target: CharacterId) ItemId AssetId
  | Delete (target: CharacterId) ItemId
  | Pose (target: CharacterId) "(string \<times> int) list"
  | Body (target: CharacterId) "(string \<times> int) list"

record ('app, 'asset) Appearance_methods =
  allowCreateItem :: "'app \<Rightarrow> ItemId \<Rightarrow> 'asset \<Rightarrow> bool"
  createItem :: "'app \<Rightarrow> ItemId \<Rightarrow> 'asset \<Rightarrow> 'app"
  allowRemoveItem :: "'app \<Rightarrow> ItemId \<Rightarrow> bool"
  removeItem :: "'app \<Rightarrow> ItemId \<Rightarrow> 'app"
  importPose :: "'app \<Rightarrow> (string \<times> int) list \<Rightarrow> string \<Rightarrow> 'app"

record 'app AppearanceActionContext =
  player :: CharacterId
  characters :: "CharacterId \<rightharpoonup> 'app"

definition DoAppearanceAction ::
  "('app, 'asset) Appearance_methods \<Rightarrow> AppearanceAction \<Rightarrow> 'app AppearanceActionContext \<Rightarrow>
   (AssetId \<rightharpoonup> 'asset) \<Rightarrow> bool \<Rightarrow> bool \<times> 'app AppearanceActionContext" where
  "DoAppearanceAction m action context getAssetById dryRun =
     (case characters context (target action) of
        None \<Rightarrow> (False, context)
      | Some appearance \<Rightarrow>
          (case action of
             Create tg itemId assetId \<Rightarrow>
               (case getAssetById assetId of
                  None \<Rightarrow> (False, context)
                | Some asset \<Rightarrow>
                    if \<not> allowCreateItem m appearance itemId asset then (False, context)
                    else (True,
                      if \<not> dryRun
                      then context\<lparr>characters :=
                             (characters context)(tg \<mapsto> createItem m appearance itemId asset)\<rparr>
                      else context))
           | Delete tg itemId \<Rightarrow>
               if \<not> allowRemoveItem m appearance itemId then (False, context)
               else (True,
                 if \<not> dryRun
                 then context\<lparr>characters :=
                        (characters context)(tg \<mapsto> removeItem m appearance itemId)\<rparr>
                 else context)
           | Pose tg pose \<Rightarrow>
               if player context \<noteq> tg then (False, context)
               else (True,
                 if \<not> dryRun
                 then context\<lparr>characters :=
                        (characters context)(tg \<mapsto> importPose m appearance pose ''pose'')\<rparr>
                 else context)
           | Body tg pose \<Rightarrow>
               if player context \<noteq> tg then (False, context)
               else (True,
                 if \<not> dryRun
                 then context\<lparr>characters :=
                        (characters context)(tg \<mapsto> importPose m appearance pose ''body'')\<rparr>
                 else context)))"

section \<open>Storage modules\<close>

text \<open>
  \<^verbatim>\<open>ValidateStorage\<close> of the storage module.  The classes \<^verbatim>\<open>Item\<close> and \<^verbatim>\<open>Asset\<close>, the
  table \<^verbatim>\<open>AssetSizeMapping\<close> and \<^verbatim>\<open>AppearanceValidationCombineResults\<close> are not among the
  sources.  An item is the record of what the function reads from it (its id, its
  asset's id and size); the size table, the items' own \<^verbatim>\<open>validate\<close> and the combination
  of two results are parameters.
\<close>

type_synonym AssetSize = string

record Asset =
  asset_id :: AssetId
  definition_size :: AssetSize

record Item =
  item_id :: ItemId
  asset :: Asset

record IModuleConfigStorage =
  maxCount :: int
  maxAcceptedSize :: AssetSize

datatype AppearanceValidationError =
    invalid
  | tooManyItems "AssetId option" int
  | contentNotAllowed AssetId
  | otherProblem string

datatype AppearanceValidationResult = success | failure AppearanceValidationError

text \<open>The first loop: \<^const>\<open>True\<close> when an id is met that is in the set of ids seen so far.\<close>

fun duplicate_id :: "ItemId set \<Rightarrow> Item list \<Rightarrow> bool" where
  "duplicate_id ids [] = False"
| "duplicate_id ids (item # rest) =
     (if item_id item \<in> ids then True else duplicate_id (insert (item_id item) ids) rest)"

definition size_of :: "(AssetSize \<rightharpoonup> int) \<Rightarrow> AssetSize \<Rightarrow> int \<Rightarrow> int" where
  "size_of AssetSizeMapping s dflt = (case AssetSizeMapping s of None \<Rightarrow> dflt | Some n \<Rightarrow> n)"

definition ValidateStorage ::
  "(AssetSize \<rightharpoonup> int) \<Rightarrow> (Item \<Rightarrow> AppearanceValidationResult) \<Rightarrow>
   (AppearanceValidationResult \<Rightarrow> AppearanceValidationResult \<Rightarrow> AppearanceValidationResult) \<Rightarrow>
   Item list \<Rightarrow> IModuleConfigStorage \<Rightarrow> AppearanceValidationResult" where
  "ValidateStorage AssetSizeMapping validate AppearanceValidationCombineResults contents config =
     (if duplicate_id {} contents then failure invalid
      else if int (length contents) > maxCount config
        then failure (tooManyItems None (maxCount config))
      else
        (let limitSize = size_of AssetSizeMapping (maxAcceptedSize config) 0
         in case find (\<lambda>i. size_of AssetSizeMapping (definition_size (asset i)) 99 > limitSize) contents of
              Some problematic \<Rightarrow> failure (contentNotAllowed (asset_id (asset problematic)))
            | None \<Rightarrow> foldl AppearanceValidationCombineResults success (map validate contents)))"

section \<open>Example data\<close>

text \<open>
  Pose-limit definitions of three items.  The first allows \<open>bones.x\<close> between 0 and 10
  and offers two alternatives for \<open>bones.y\<close>; the second and the third offer alternatives
  that all need \<open>bones.x\<close> between 50 and 80.
\<close>

definition limits_x_0_10 :: PoseLimits where
  "limits_x_0_10 = PoseLimits [(''bones.x'', [(0, 10)])] None"

definition limits_x_20_30 :: PoseLimits where
  "limits_x_20_30 = PoseLimits [(''bones.x'', [(20, 30)])] None"





definition limits_item1 :: PoseLimits where
  "limits_item1 =
     PoseLimits [(''bones.x'', [(0, 10)])]
       (Some [PoseLimits [(''bones.y'', [(0, 0)])] None,
              PoseLimits [(''bones.y'', [(1, 1)])] None])"

definition limits_item2 :: PoseLimits where
  "limits_item2 =
     PoseLimits []
       (Some [PoseLimits [(''bones.x'', [(50, 60)]), (''bones.y'', [(0, 0)])] None,
              PoseLimits [(''bones.x'', [(50, 60)]), (''bones.y'', [(5, 5)])] None])"




definition tree_item1 :: AppearanceLimitTree where
  "tree_item1 = merge_all new_AppearanceLimitTree [Some limits_item1]"


text \<open>
  An appearance for the examples of the action engine: the ids of the worn items and the
  pose imported last.
\<close>

definition example_methods :: "(ItemId list \<times> (string \<times> int) list, AssetId) Appearance_methods" where
  "example_methods =
     \<lparr>allowCreateItem = (\<lambda>app itemId asset. itemId \<notin> set (fst app)),
      createItem = (\<lambda>app itemId asset. (fst app @ [itemId], snd app)),
      allowRemoveItem = (\<lambda>app itemId. itemId \<in> set (fst app)),
      removeItem = (\<lambda>app itemId. (removeAll itemId (fst app), snd app)),
      importPose = (\<lambda>app pose type. (fst app, pose))\<rparr>"

definition example_context :: "(ItemId list \<times> (string \<times> int) list) AppearanceActionContext" where
  "example_context =
     \<lparr>player = ''c1'', characters = [''c1'' \<mapsto> ([], []), ''c2'' \<mapsto> ([''i/1''], [])]\<rparr>"

definition example_assets :: "AssetId \<rightharpoonup> AssetId" where
  "example_assets = [''a/shirt'' \<mapsto> ''a/shirt'']"

text \<open>A storage module for two items of at most medium size, and a way to combine results.\<close>

definition example_sizes :: "AssetSize \<rightharpoonup> int" where
  "example_sizes = [''small'' \<mapsto> 1, ''medium'' \<mapsto> 2, ''large'' \<mapsto> 3]"

definition first_failure ::
  "AppearanceValidationResult \<Rightarrow> AppearanceValidationResult \<Rightarrow> AppearanceValidationResult" where
  "first_failure a b = (case a of success \<Rightarrow> b | failure e \<Rightarrow> a)"

definition example_item :: "ItemId \<Rightarrow> AssetSize \<Rightarrow> Item" where
  "example_item i s = \<lparr>item_id = i, asset = \<lparr>asset_id = ''a/box'', definition_size = s\<rparr>\<rparr>"

definition example_config :: IModuleConfigStorage where
  "example_config = \<lparr>maxCount = 2, maxAcceptedSize = ''medium''\<rparr>"

section \<open>Clamping a pose into the limits\<close>














section \<open>The constraint tree\<close>

lemma merge_invalid: "root t = None \<Longrightarrow> merge t limits = (False, t)"
  by (simp add: merge_def)

lemma merge_all_invalid: "root t = None \<Longrightarrow> root (merge_all t ls) = None"
  by (induction ls arbitrary: t) (simp_all add: merge_invalid)

lemma merge_all_append: "merge_all t (ls1 @ ls2) = merge_all (merge_all t ls1) ls2"
  by (induction ls1 arbitrary: t) simp_all







text \<open>
  Claim C4 at the input where the code departs from it.  The tree holds the first item's
  limits and rejects the pose \<open>bones.x = 55\<close>, \<open>bones.y = 0\<close>; merging the second item's
  definition succeeds, and the tree after the merge accepts that pose.
\<close>

theorem merge_grows_accepted_poses:
  "fst (merge tree_item1 (Some limits_item2)) = True
   \<and> AppearanceLimitTree_validate (snd (merge tree_item1 (Some limits_item2)))
        [(''bones.x'', 55), (''bones.y'', 0)]
   \<and> \<not> AppearanceLimitTree_validate tree_item1 [(''bones.x'', 55), (''bones.y'', 0)]"
  by code_simp

text \<open>
  Claim C5.  Invalidity is terminal: whatever definitions are merged after the root has
  become null, the root stays null.
\<close>

theorem invalid_is_terminal:
  "\<not> valid (merge_all t ls1) \<Longrightarrow> \<not> valid (merge_all t (ls1 @ ls2))"
  by (simp add: valid_def merge_all_append merge_all_invalid)

theorem invalid_is_terminal_witness:
  "\<not> valid (merge_all new_AppearanceLimitTree [Some limits_x_0_10, Some limits_x_20_30])
   \<and> \<not> valid (merge_all new_AppearanceLimitTree
                ([Some limits_x_0_10, Some limits_x_20_30] @ [Some limits_x_0_10, None]))"
proof -
  have h: "\<not> valid (merge_all new_AppearanceLimitTree [Some limits_x_0_10, Some limits_x_20_30])"
    by code_simp
  show ?thesis
    using h invalid_is_terminal[OF h, of "[Some limits_x_0_10, None]"] by simp
qed

section \<open>The action engine\<close>

text \<open>
  Claim C1.  A dry run leaves the context as it was, and its result is the result of the
  call without \<^verbatim>\<open>dryRun\<close> on the same action, context and asset manager.
\<close>

theorem dry_run_changes_nothing:
  "snd (DoAppearanceAction m action context getAssetById True) = context
   \<and> fst (DoAppearanceAction m action context getAssetById True)
       = fst (DoAppearanceAction m action context getAssetById False)"
  by (simp add: DoAppearanceAction_def split: option.splits AppearanceAction.splits)

theorem dry_run_changes_nothing_witness:
  "snd (DoAppearanceAction example_methods (Create ''c1'' ''i/2'' ''a/shirt'') example_context
          example_assets True) = example_context
   \<and> fst (DoAppearanceAction example_methods (Create ''c1'' ''i/2'' ''a/shirt'') example_context
          example_assets True) = True
   \<and> fst (DoAppearanceAction example_methods (Create ''c1'' ''i/2'' ''a/shirt'') example_context
          example_assets False) = True
   \<and> snd (DoAppearanceAction example_methods (Create ''c1'' ''i/2'' ''a/shirt'') example_context
          example_assets False) \<noteq> example_context"
proof -
  have run: "DoAppearanceAction example_methods (Create ''c1'' ''i/2'' ''a/shirt'') example_context
          example_assets False
       = (True, example_context\<lparr>characters := (characters example_context)(''c1'' \<mapsto> ([''i/2''], []))\<rparr>)"
    by (simp add: DoAppearanceAction_def example_methods_def example_context_def example_assets_def)
  have diff: "example_context\<lparr>characters := (characters example_context)(''c1'' \<mapsto> ([''i/2''], []))\<rparr>
       \<noteq> example_context"
  proof
    assume "example_context\<lparr>characters := (characters example_context)(''c1'' \<mapsto> ([''i/2''], []))\<rparr>
       = example_context"
    then have "characters (example_context\<lparr>characters := (characters example_context)(''c1'' \<mapsto> ([''i/2''], []))\<rparr>) ''c1''
       = characters example_context ''c1''"
      by simp
    then show False by (simp add: example_context_def)
  qed
  show ?thesis
    using run diff
      dry_run_changes_nothing[of example_methods "Create ''c1'' ''i/2'' ''a/shirt''" example_context example_assets]
    by simp
qed

text \<open>
  Claim C9, as amended.  When the context has no appearance for the target of the action,
  \<^verbatim>\<open>DoAppearanceAction\<close> returns false, in a dry run and in a real run, and the context is
  unchanged.  The result is a boolean: it carries no reason.
\<close>

theorem unresolved_target_fails:
  "characters context (target action) = None \<Longrightarrow>
     DoAppearanceAction m action context getAssetById dryRun = (False, context)"
  by (simp add: DoAppearanceAction_def)

theorem unresolved_target_fails_witness:
  "characters example_context (target (Delete ''c3'' ''i/1'')) = None
   \<and> DoAppearanceAction example_methods (Delete ''c3'' ''i/1'') example_context example_assets False
       = (False, example_context)"
proof -
  have h: "characters example_context (target (Delete ''c3'' ''i/1'')) = None"
    by (simp add: example_context_def)
  show ?thesis using h unresolved_target_fails[OF h] by simp
qed

text \<open>
  The claim as stated asks for a \<^verbatim>\<open>targetNotFound\<close> reason.  The character \<open>c3\<close> is not in the
  context and \<open>c1\<close> is; the action on \<open>c3\<close> and the action on \<open>c1\<close> with an unknown asset
  return the same value, so the result does not tell a missing target from any other
  failure.
\<close>

theorem failure_carries_no_reason:
  "characters example_context ''c3'' = None
   \<and> characters example_context ''c1'' \<noteq> None
   \<and> fst (DoAppearanceAction example_methods (Create ''c3'' ''i/2'' ''a/shirt'') example_context
            example_assets False)
       = fst (DoAppearanceAction example_methods (Create ''c1'' ''i/2'' ''a/unknown'') example_context
            example_assets False)"
  by (simp add: DoAppearanceAction_def example_context_def example_assets_def)

text \<open>
  Claim C10.  A pose or body action whose target is not the acting player fails, in a dry
  run and in a real run, whatever the appearance methods answer: the result is false and
  the context, with the target's appearance in it, is the one before the call, so no pose
  is imported.  Only the character's own player can pose that character.
\<close>

theorem pose_body_self_only:
  "player context \<noteq> tg \<Longrightarrow>
     DoAppearanceAction m (Pose tg pose) context getAssetById dryRun = (False, context)
     \<and> DoAppearanceAction m (Body tg pose) context getAssetById dryRun = (False, context)"
  by (simp add: DoAppearanceAction_def split: option.splits)

theorem pose_body_self_only_witness:
  "player example_context \<noteq> ''c2''
   \<and> characters example_context ''c2'' = Some ([''i/1''], [])
   \<and> DoAppearanceAction example_methods (Pose ''c2'' [(''bones.x'', 5)]) example_context
        example_assets False = (False, example_context)
   \<and> DoAppearanceAction example_methods (Body ''c2'' [(''bones.x'', 5)]) example_context
        example_assets False = (False, example_context)
   \<and> DoAppearanceAction example_methods (Pose ''c2'' [(''bones.x'', 5)]) example_context
        example_assets True = (False, example_context)
   \<and> DoAppearanceAction example_methods (Pose ''c1'' [(''bones.x'', 5)]) example_context
        example_assets False
       = (True, example_context\<lparr>characters :=
                  (characters example_context)(''c1'' \<mapsto> ([], [(''bones.x'', 5)]))\<rparr>)"
proof -
  have h: "player example_context \<noteq> ''c2''" by (simp add: example_context_def)
  have there: "characters example_context ''c2'' = Some ([''i/1''], [])"
    by (simp add: example_context_def)
  have own: "DoAppearanceAction example_methods (Pose ''c1'' [(''bones.x'', 5)]) example_context
        example_assets False
       = (True, example_context\<lparr>characters :=
                  (characters example_context)(''c1'' \<mapsto> ([], [(''bones.x'', 5)]))\<rparr>)"
    by (simp add: DoAppearanceAction_def example_context_def example_methods_def)
  show ?thesis
    using h there own
      pose_body_self_only[OF h, of example_methods "[(''bones.x'', 5)]" example_assets False]
      pose_body_self_only[OF h, of example_methods "[(''bones.x'', 5)]" example_assets True]
    by simp
qed

section \<open>Validation of a storage module\<close>

lemma duplicate_id_iff:
  "duplicate_id ids contents \<longleftrightarrow>
     \<not> distinct (map item_id contents) \<or> (\<exists>i\<in>set contents. item_id i \<in> ids)"
proof (induction contents arbitrary: ids)
  case Nil
  show ?case by simp
next
  case (Cons a contents)
  have "item_id a \<in> set (map item_id contents) \<longleftrightarrow> (\<exists>i\<in>set contents. item_id i = item_id a)"
    unfolding set_map image_iff by (rule iffI; metis)
  then show ?case using Cons.IH[of "insert (item_id a) ids"] by auto
qed

lemma foldl_combine_success:
  assumes comb: "\<And>a b. combine a b = success \<Longrightarrow> a = success \<and> b = success"
  shows "foldl combine acc rs = success \<Longrightarrow> acc = success \<and> (\<forall>r\<in>set rs. r = success)"
proof (induction rs arbitrary: acc)
  case Nil
  then show ?case by simp
next
  case (Cons r rs)
  from Cons.IH[of "combine acc r"] Cons.prems
  have "combine acc r = success" "\<forall>x\<in>set rs. x = success" by simp_all
  with comb[of acc r] show ?case by simp
qed

text \<open>
  Claim C7, as amended.  The checks run in the order of the source, so each problem is
  reported only when the earlier checks pass: two items with the same id give
  \<^verbatim>\<open>invalid\<close>; with distinct ids, more items than \<^verbatim>\<open>maxCount\<close> give \<^verbatim>\<open>tooManyItems\<close> with the
  configured limit; with distinct ids and a count within the limit, an item larger than
  \<^verbatim>\<open>maxAcceptedSize\<close> gives \<^verbatim>\<open>contentNotAllowed\<close> for such an item's asset; and the
  validation succeeds only when, besides all that, every item validates.  The last part
  needs the combination of two results to succeed only when both do.
\<close>

theorem ValidateStorage_caps:
  assumes comb: "\<And>a b. combine a b = success \<Longrightarrow> a = success \<and> b = success"
  shows "(\<not> distinct (map item_id contents) \<longrightarrow>
            ValidateStorage sizes validate combine contents config = failure invalid)
       \<and> (distinct (map item_id contents) \<and> maxCount config < int (length contents) \<longrightarrow>
            ValidateStorage sizes validate combine contents config
              = failure (tooManyItems None (maxCount config)))
       \<and> (distinct (map item_id contents) \<and> int (length contents) \<le> maxCount config
            \<and> list_ex (\<lambda>i. size_of sizes (maxAcceptedSize config) 0
                               < size_of sizes (definition_size (asset i)) 99) contents \<longrightarrow>
            list_ex (\<lambda>i. size_of sizes (maxAcceptedSize config) 0
                               < size_of sizes (definition_size (asset i)) 99
                         \<and> ValidateStorage sizes validate combine contents config
                              = failure (contentNotAllowed (asset_id (asset i)))) contents)
       \<and> (ValidateStorage sizes validate combine contents config = success \<longrightarrow>
            distinct (map item_id contents) \<and> int (length contents) \<le> maxCount config
            \<and> list_all (\<lambda>i. size_of sizes (definition_size (asset i)) 99
                               \<le> size_of sizes (maxAcceptedSize config) 0
                         \<and> validate i = success) contents)"
proof -
  let ?VS = "ValidateStorage sizes validate combine contents config"
  let ?big = "\<lambda>i. size_of sizes (maxAcceptedSize config) 0
                  < size_of sizes (definition_size (asset i)) 99"
  have dup: "?VS = failure invalid" if "\<not> distinct (map item_id contents)"
    using that by (simp add: ValidateStorage_def duplicate_id_iff)
  have many: "?VS = failure (tooManyItems None (maxCount config))"
    if "distinct (map item_id contents) \<and> maxCount config < int (length contents)"
    using that by (simp add: ValidateStorage_def duplicate_id_iff)
  have big: "list_ex (\<lambda>i. ?big i \<and> ?VS = failure (contentNotAllowed (asset_id (asset i)))) contents"
    if a: "distinct (map item_id contents) \<and> int (length contents) \<le> maxCount config
            \<and> list_ex ?big contents"
  proof -
    from a obtain p where p: "find ?big contents = Some p"
      by (cases "find ?big contents") (auto simp: find_None_iff list_ex_iff)
    then have "?big p" "p \<in> set contents" by (auto simp: find_Some_iff)
    moreover have "?VS = failure (contentNotAllowed (asset_id (asset p)))"
      using a p by (simp add: ValidateStorage_def duplicate_id_iff)
    ultimately show ?thesis by (auto simp: list_ex_iff)
  qed
  have ok: "distinct (map item_id contents) \<and> int (length contents) \<le> maxCount config
            \<and> list_all (\<lambda>i. size_of sizes (definition_size (asset i)) 99
                               \<le> size_of sizes (maxAcceptedSize config) 0
                         \<and> validate i = success) contents"
    if s: "?VS = success"
  proof -
    from s have d: "\<not> duplicate_id {} contents" and c: "\<not> maxCount config < int (length contents)"
      by (auto simp: ValidateStorage_def split: if_splits)
    with s have f: "find ?big contents = None"
      and r: "foldl combine success (map validate contents) = success"
      by (auto simp: ValidateStorage_def Let_def split: option.splits)
    from foldl_combine_success[OF comb r] have "\<forall>i\<in>set contents. validate i = success" by simp
    with d c f show ?thesis
      by (auto simp: duplicate_id_iff find_None_iff list_all_iff not_less)
  qed
  from dup many big ok show ?thesis by blast
qed

theorem ValidateStorage_caps_witness:
  "ValidateStorage example_sizes (\<lambda>i. success) first_failure
        [example_item ''i/1'' ''small'', example_item ''i/1'' ''small''] example_config
     = failure invalid
   \<and> ValidateStorage example_sizes (\<lambda>i. success) first_failure
        [example_item ''i/1'' ''small'', example_item ''i/2'' ''small'', example_item ''i/3'' ''small'']
        example_config
     = failure (tooManyItems None 2)
   \<and> ValidateStorage example_sizes (\<lambda>i. success) first_failure
        [example_item ''i/1'' ''small'', example_item ''i/2'' ''large''] example_config
     = failure (contentNotAllowed ''a/box'')
   \<and> ValidateStorage example_sizes (\<lambda>i. success) first_failure
        [example_item ''i/1'' ''small'', example_item ''i/2'' ''medium''] example_config
     = success"
proof -
  have comb: "first_failure a b = success \<Longrightarrow> a = success \<and> b = success" for a b
    by (cases a) (simp_all add: first_failure_def)
  note caps = ValidateStorage_caps[of first_failure _ example_sizes "\<lambda>i. success" example_config, OF comb]
  have dup: "\<not> distinct (map item_id [example_item ''i/1'' ''small'', example_item ''i/1'' ''small''])"
    by (simp add: example_item_def)
  have many: "distinct (map item_id
        [example_item ''i/1'' ''small'', example_item ''i/2'' ''small'', example_item ''i/3'' ''small''])
      \<and> maxCount example_config < int (length
        [example_item ''i/1'' ''small'', example_item ''i/2'' ''small'', example_item ''i/3'' ''small''])"
    by (simp add: example_item_def example_config_def)
  have big: "distinct (map item_id [example_item ''i/1'' ''small'', example_item ''i/2'' ''large''])
      \<and> int (length [example_item ''i/1'' ''small'', example_item ''i/2'' ''large''])
          \<le> maxCount example_config
      \<and> list_ex (\<lambda>i. size_of example_sizes (maxAcceptedSize example_config) 0
                       < size_of example_sizes (definition_size (asset i)) 99)
          [example_item ''i/1'' ''small'', example_item ''i/2'' ''large'']"
    by (simp add: example_item_def example_config_def example_sizes_def size_of_def)
  have ok: "ValidateStorage example_sizes (\<lambda>i. success) first_failure
        [example_item ''i/1'' ''small'', example_item ''i/2'' ''medium''] example_config = success"
    by (simp add: ValidateStorage_def example_item_def example_config_def example_sizes_def
        size_of_def first_failure_def)
  from caps[of "[example_item ''i/1'' ''small'', example_item ''i/1'' ''small'']"] dup
  have r1: "ValidateStorage example_sizes (\<lambda>i. success) first_failure
        [example_item ''i/1'' ''small'', example_item ''i/1'' ''small''] example_config
     = failure invalid"
    by blast
  from caps[of "[example_item ''i/1'' ''small'', example_item ''i/2'' ''small'', example_item ''i/3'' ''small'']"] many
  have r2: "ValidateStorage example_sizes (\<lambda>i. success) first_failure
        [example_item ''i/1'' ''small'', example_item ''i/2'' ''small'', example_item ''i/3'' ''small'']
        example_config
     = failure (tooManyItems None (maxCount example_config))"
    by blast
  from caps[of "[example_item ''i/1'' ''small'', example_item ''i/2'' ''large'']"] big
  have "list_ex (\<lambda>i. size_of example_sizes (maxAcceptedSize example_config) 0
                       < size_of example_sizes (definition_size (asset i)) 99
                  \<and> ValidateStorage example_sizes (\<lambda>i. success) first_failure
                       [example_item ''i/1'' ''small'', example_item ''i/2'' ''large''] example_config
                     = failure (contentNotAllowed (asset_id (asset i))))
          [example_item ''i/1'' ''small'', example_item ''i/2'' ''large'']"
    by blast
  then have r3: "ValidateStorage example_sizes (\<lambda>i. success) first_failure
        [example_item ''i/1'' ''small'', example_item ''i/2'' ''large''] example_config
     = failure (contentNotAllowed ''a/box'')"
    by (auto simp: example_item_def)
  from r1 r2 r3 ok show ?thesis by (simp add: example_config_def)
qed

text \<open>
  The claim as stated asks for \<^verbatim>\<open>tooManyItems\<close> whenever the count exceeds \<^verbatim>\<open>maxCount\<close>.
  Three items for a module of two, two of them with the same id, give \<^verbatim>\<open>invalid\<close>.
\<close>

theorem tooManyItems_hidden_by_duplicate:
  "maxCount example_config
     < int (length [example_item ''i/1'' ''small'', example_item ''i/1'' ''small'',
                    example_item ''i/2'' ''small''])
   \<and> ValidateStorage example_sizes (\<lambda>i. success) first_failure
        [example_item ''i/1'' ''small'', example_item ''i/1'' ''small'', example_item ''i/2'' ''small'']
        example_config
       = failure invalid"
  by (simp add: ValidateStorage_def example_item_def example_config_def)

end
